theory Spec2Isabelle
  imports Complex_Main
begin

section \<open>The MamaCare account API, embedded\<close>

text \<open>
  The repository holds two revisions of one Express server: \<^verbatim>\<open>src/unnamed/part_000\<close>
  (the later one: start-up checks, rate limiting, length checks, auto-login on
  verification) and \<^verbatim>\<open>src/server.js\<close> (the earlier one). Both are runnable entry
  points. The definitions without prefix embed \<^verbatim>\<open>part_000\<close>; those prefixed
  \<open>server_\<close> embed \<^verbatim>\<open>server.js\<close>.

  A JavaScript string is a \<^typ>\<open>string\<close> (one \<^typ>\<open>char\<close> per code unit, so
  \<^verbatim>\<open>s.length\<close> is \<^const>\<open>length\<close>; the code units are those below 256). A field of the
  body of a sign-up or of a verification is a \<^typ>\<open>string option\<close>: \<open>None\<close> when the
  field is missing. The test \<^verbatim>\<open>!x\<close> is true of a missing field and of the empty string.
  The fields of the body of a login are any values that \<^verbatim>\<open>express.json()\<close> parses.
\<close>

subsection \<open>Process environment and start-up\<close>

record environment =
  JWT_SECRET :: "string option"
  EMAIL_USER :: "string option"
  EMAIL_PASS :: "string option"

definition falsy :: "string option \<Rightarrow> bool" where
  "falsy x = (case x of None \<Rightarrow> True | Some s \<Rightarrow> s = [])"

text \<open>
  What the top level of the script leaves behind: the process has exited with a
  code, or it goes on to \<^verbatim>\<open>app.listen\<close> and the handlers sign and verify tokens with
  the given secret.
\<close>

datatype process = Exited nat | Listening string

text \<open>
  \<^verbatim>\<open>part_000\<close>, lines 16 to 23. The handlers read \<^verbatim>\<open>process.env.JWT_SECRET\<close>
  itself, which nothing assigns after start-up.
\<close>

definition startup :: "environment \<Rightarrow> process" where
  "startup env =
     (if falsy (JWT_SECRET env) then Exited 1
      else if falsy (EMAIL_USER env) \<or> falsy (EMAIL_PASS env) then Exited 1
      else (case JWT_SECRET env of Some s \<Rightarrow> Listening s | None \<Rightarrow> Exited 1))"

text \<open>
  \<^verbatim>\<open>server.js\<close>, line 32:
  \<^verbatim>\<open>const JWT_SECRET = process.env.JWT_SECRET || "your_jwt_secret_123"\<close>;
  the script has no exit.
\<close>

definition server_startup :: "environment \<Rightarrow> process" where
  "server_startup env =
     Listening (case JWT_SECRET env of
                  None \<Rightarrow> ''your_jwt_secret_123''
                | Some s \<Rightarrow> if s = [] then ''your_jwt_secret_123'' else s)"

subsection \<open>The users table\<close>

type_synonym digest = string

record user =
  user_id :: nat
  name :: string
  email :: string
  password :: digest
  verification_code :: "digest option"
  is_verified :: bool

text \<open>
  The table, with the next value of its auto-increment key. The column
  \<^verbatim>\<open>verification_code\<close> is nullable: \<open>None\<close> is SQL \<^verbatim>\<open>NULL\<close>. The comparison
  \<^verbatim>\<open>WHERE email = ?\<close> is taken as equality of strings.
\<close>

record db =
  users :: "user list"
  next_id :: nat

text \<open>\<^verbatim>\<open>SELECT * FROM users WHERE email = ?\<close>\<close>

definition select_by_email :: "db \<Rightarrow> string \<Rightarrow> user list" where
  "select_by_email d e = filter (\<lambda>u. email u = e) (users d)"

text \<open>
  \<^verbatim>\<open>INSERT INTO users (name, email, password, verification_code, is_verified)
  VALUES (?, ?, ?, ?, ?)\<close> with the values \<^verbatim>\<open>[name, email, hashedPassword, hashedCode, false]\<close>
\<close>

definition insert_user :: "db \<Rightarrow> string \<Rightarrow> string \<Rightarrow> digest \<Rightarrow> digest \<Rightarrow> db" where
  "insert_user d n e hp hc =
     d\<lparr>users := users d @
          [\<lparr>user_id = next_id d, name = n, email = e, password = hp,
            verification_code = Some hc, is_verified = False\<rparr>],
       next_id := Suc (next_id d)\<rparr>"

text \<open>\<^verbatim>\<open>UPDATE users SET is_verified = true, verification_code = NULL WHERE email = ?\<close>\<close>

definition set_verified :: "db \<Rightarrow> string \<Rightarrow> db" where
  "set_verified d e =
     d\<lparr>users := map (\<lambda>u. if email u = e
                           then u\<lparr>is_verified := True, verification_code := None\<rparr>
                           else u) (users d)\<rparr>"

subsection \<open>Collaborators: bcryptjs, jsonwebtoken, mysql2, nodemailer\<close>

text \<open>
  The digest function of bcrypt is a parameter: \<open>digest_of s salt\<close> is the digest
  \<^verbatim>\<open>bcrypt.hash(s, 10)\<close> resolves to when the library draws \<open>salt\<close>, and
  \<open>digest_matches s h\<close> is what \<^verbatim>\<open>bcrypt.compare(s, h)\<close> resolves to on two strings.
\<close>

record hasher =
  digest_of :: "string \<Rightarrow> nat \<Rightarrow> digest"
  digest_matches :: "string \<Rightarrow> digest \<Rightarrow> bool"

definition bcrypt_hash :: "hasher \<Rightarrow> string \<Rightarrow> nat \<Rightarrow> digest" where
  "bcrypt_hash H s salt = digest_of H s salt"

text \<open>
  \<^verbatim>\<open>bcrypt.compare(s, hash)\<close> of bcryptjs rejects with
  \<^verbatim>\<open>Error("Illegal arguments: " + typeof s + ", " + typeof hash)\<close> unless both arguments
  are strings. The second argument is a column of the row: a string, or
  \<^verbatim>\<open>null\<close> (of type \<^verbatim>\<open>object\<close>) when the column is \<^verbatim>\<open>NULL\<close>. \<open>Inl\<close> carries the
  message of the rejection.
\<close>

definition bcrypt_compare :: "hasher \<Rightarrow> string \<Rightarrow> digest option \<Rightarrow> string + bool" where
  "bcrypt_compare H s h =
     (case h of
        None \<Rightarrow> Inl ''Illegal arguments: string, object''
      | Some d \<Rightarrow> Inr (digest_matches H s d))"

text \<open>
  A token, symbolically: the payload \<^verbatim>\<open>{ userId, email }\<close>, the times of issue and
  of expiry in seconds, and the secret that signed it.
\<close>

record jwt =
  userId :: nat
  jwt_email :: string
  iat :: nat
  exp :: nat
  signed_with :: string

text \<open>\<^verbatim>\<open>jwt.sign({ userId: user.id, email: user.email }, secret, { expiresIn: "1h" })\<close>\<close>

definition jwt_sign :: "nat \<Rightarrow> string \<Rightarrow> string \<Rightarrow> nat \<Rightarrow> jwt" where
  "jwt_sign uid e secret now_s =
     \<lparr>userId = uid, jwt_email = e, iat = now_s, exp = now_s + 3600, signed_with = secret\<rparr>"

text \<open>
  What the outside world does during one request: whether
  \<^verbatim>\<open>mysql.createConnection\<close>, the \<^verbatim>\<open>SELECT\<close>, the \<^verbatim>\<open>INSERT\<close> or \<^verbatim>\<open>UPDATE\<close>,
  \<^verbatim>\<open>db.end\<close> and \<^verbatim>\<open>transporter.sendMail\<close> reject (\<open>Some\<close> of the error's message), the
  value of \<^verbatim>\<open>Math.floor(Math.random() * 900000)\<close> (a number below 900000), the
  salts bcrypt draws, and the clock in seconds. When the parameter of
  \<^verbatim>\<open>WHERE email = ?\<close> is not a string, the binding of the driver and the conversion of
  the server decide which rows compare equal to it; neither is in the repository, and
  \<open>coerced\<close> holds of the rows they select.
\<close>

record world =
  connect_error :: "string option"
  select_error :: "string option"
  write_error :: "string option"
  end_error :: "string option"
  mail_error :: "string option"
  random :: nat
  password_salt :: nat
  code_salt :: nat
  now :: nat
  coerced :: "user \<Rightarrow> bool"

definition store_ok :: "world \<Rightarrow> bool" where
  "store_ok w =
     (connect_error w = None \<and> select_error w = None \<and> write_error w = None \<and>
      end_error w = None)"

subsection \<open>Responses\<close>

datatype json =
  JString string
| JNumber nat
| JToken jwt
| JObject "(string \<times> json) list"

text \<open>\<^verbatim>\<open>res.status(n).json({...})\<close>: the status and the members of the body, in order.\<close>

record response =
  status :: nat
  body :: "(string \<times> json) list"

definition reply :: "nat \<Rightarrow> (string \<times> json) list \<Rightarrow> response" where
  "reply n b = \<lparr>status = n, body = b\<rparr>"

text \<open>The members \<^verbatim>\<open>{ id: user.id, name: user.name, email: user.email }\<close>.\<close>

definition user_info :: "user \<Rightarrow> json" where
  "user_info u =
     JObject [(''id'', JNumber (user_id u)), (''name'', JString (name u)),
              (''email'', JString (email u))]"

subsection \<open>Sign-up\<close>

text \<open>
  The regular expression \<^verbatim>\<open>/^[^\s@]+@[^\s@]+\.[^\s@]+$/\<close>. Among the code units
  below 256 the class \<^verbatim>\<open>\s\<close> has the tab, the line feed, the vertical tab, the form
  feed, the carriage return, the space and the no-break space.
\<close>

definition white_space :: "char \<Rightarrow> bool" where
  "white_space c = (of_char c \<in> {9, 10, 11, 12, 13, 32, 160 :: nat})"

definition plain :: "char \<Rightarrow> bool" where
  "plain c = (\<not> white_space c \<and> c \<noteq> CHR ''@'')"

text \<open>
  The first group takes every plain character up to the first other one, which has
  to be the at sign; what follows is plain throughout and has a dot that is neither
  its first nor its last character.
\<close>

definition emailRegex_test :: "string \<Rightarrow> bool" where
  "emailRegex_test s =
     (takeWhile plain s \<noteq> [] \<and>
      (case dropWhile plain s of
         [] \<Rightarrow> False
       | c # rest \<Rightarrow> c = CHR ''@'' \<and> list_all plain rest \<and>
                     CHR ''.'' \<in> set (butlast (tl rest))))"

text \<open>
  \<^verbatim>\<open>Math.floor(100000 + Math.random() * 900000).toString()\<close>: the number has six
  digits, written most significant first.
\<close>

definition digit :: "nat \<Rightarrow> char" where
  "digit n = ''0123456789'' ! (n mod 10)"

definition verificationCode :: "world \<Rightarrow> string" where
  "verificationCode w =
     (let n = 100000 + random w
      in map (\<lambda>k. digit (n div 10 ^ k)) [5, 4, 3, 2, 1, 0])"

text \<open>The \<^verbatim>\<open>catch\<close> of the sign-up handler.\<close>

definition signup_failed :: "string \<Rightarrow> response" where
  "signup_failed err =
     reply 500 [(''message'', JString ''Failed to register user''), (''error'', JString err)]"

text \<open>
  The \<^verbatim>\<open>try\<close> block of \<^verbatim>\<open>POST /api/signup\<close> (\<^verbatim>\<open>part_000\<close>, lines 119 to 166;
  \<^verbatim>\<open>server.js\<close>, lines 97 to 142, whose success body has no \<^verbatim>\<open>redirect\<close>).
\<close>

definition signup_try ::
  "(string \<times> json) list \<Rightarrow> hasher \<Rightarrow> world \<Rightarrow> db \<Rightarrow> string \<Rightarrow> string \<Rightarrow> string \<Rightarrow> db \<times> response"
where
  "signup_try extra H w d n e p =
     (case connect_error w of
        Some err \<Rightarrow> (d, signup_failed err)
      | None \<Rightarrow>
       (case select_error w of
          Some err \<Rightarrow> (d, signup_failed err)
        | None \<Rightarrow>
         (if select_by_email d e \<noteq> [] then
            (case end_error w of
               Some err \<Rightarrow> (d, signup_failed err)
             | None \<Rightarrow> (d, reply 400 [(''message'', JString ''Email already registered'')]))
          else
            (let hashedPassword = bcrypt_hash H p (password_salt w);
                 hashedCode = bcrypt_hash H (verificationCode w) (code_salt w)
             in (case write_error w of
                   Some err \<Rightarrow> (d, signup_failed err)
                 | None \<Rightarrow>
                  (let d' = insert_user d n e hashedPassword hashedCode
                   in (case mail_error w of
                         Some err \<Rightarrow>
                          (case end_error w of
                             Some err' \<Rightarrow> (d', signup_failed err')
                           | None \<Rightarrow>
                              (d', reply 500 [(''message'',
                                 JString ''User registered, but failed to send verification email'')]))
                       | None \<Rightarrow>
                          (case end_error w of
                             Some err' \<Rightarrow> (d', signup_failed err')
                           | None \<Rightarrow>
                              (d', reply 201 ((''message'',
                                 JString ''User registered successfully! Please check your email for the verification code.'')
                                 # extra))))))))))"

text \<open>\<^verbatim>\<open>POST /api/signup\<close> of \<^verbatim>\<open>part_000\<close>, lines 103 to 167.\<close>

definition signup ::
  "hasher \<Rightarrow> world \<Rightarrow> db \<Rightarrow> string option \<Rightarrow> string option \<Rightarrow> string option \<Rightarrow> db \<times> response"
where
  "signup H w d name' email' password' =
     (if falsy name' \<or> falsy email' \<or> falsy password' then
        (d, reply 400 [(''message'', JString ''Missing required fields: name, email, password'')])
      else
        let n = the name'; e = the email'; p = the password' in
        if \<not> emailRegex_test e then
          (d, reply 400 [(''message'', JString ''Invalid email format'')])
        else if length n > 255 \<or> length e > 255 \<or> length p < 8 then
          (d, reply 400 [(''message'', JString ''Invalid input lengths'')])
        else signup_try [(''redirect'', JString ''/verify'')] H w d n e p)"

text \<open>\<^verbatim>\<open>POST /api/signup\<close> of \<^verbatim>\<open>server.js\<close>, lines 85 to 143.\<close>

definition server_signup ::
  "hasher \<Rightarrow> world \<Rightarrow> db \<Rightarrow> string option \<Rightarrow> string option \<Rightarrow> string option \<Rightarrow> db \<times> response"
where
  "server_signup H w d name' email' password' =
     (if falsy name' \<or> falsy email' \<or> falsy password' then
        (d, reply 400 [(''message'', JString ''Missing required fields: name, email, password'')])
      else
        let n = the name'; e = the email'; p = the password' in
        if \<not> emailRegex_test e then
          (d, reply 400 [(''message'', JString ''Invalid email format'')])
        else signup_try [] H w d n e p)"

subsection \<open>Verification of the email address\<close>

text \<open>The \<^verbatim>\<open>catch\<close> of the verification handler.\<close>

definition verify_failed :: "string \<Rightarrow> response" where
  "verify_failed err =
     reply 500 [(''message'', JString ''Failed to verify email''), (''error'', JString err)]"

text \<open>
  \<^verbatim>\<open>POST /api/verify-email\<close> of \<^verbatim>\<open>part_000\<close>, lines 170 to 235. The confirmation
  mail is sent inside a \<^verbatim>\<open>try\<close> of its own whose \<^verbatim>\<open>catch\<close> only logs, so
  \<open>mail_error\<close> does not occur.
\<close>

definition verify_email ::
  "string \<Rightarrow> hasher \<Rightarrow> world \<Rightarrow> db \<Rightarrow> string option \<Rightarrow> string option \<Rightarrow> db \<times> response"
where
  "verify_email secret H w d email' code' =
     (if falsy email' \<or> falsy code' then
        (d, reply 400 [(''message'', JString ''Missing required fields: email, code'')])
      else
        (let e = the email'; c = the code' in
         (case connect_error w of
            Some err \<Rightarrow> (d, verify_failed err)
          | None \<Rightarrow>
           (case select_error w of
              Some err \<Rightarrow> (d, verify_failed err)
            | None \<Rightarrow>
             (case select_by_email d e of
                [] \<Rightarrow>
                 (case end_error w of
                    Some err \<Rightarrow> (d, verify_failed err)
                  | None \<Rightarrow> (d, reply 404 [(''message'', JString ''User not found'')]))
              | user # _ \<Rightarrow>
                 (case bcrypt_compare H c (verification_code user) of
                    Inl err \<Rightarrow> (d, verify_failed err)
                  | Inr isMatch \<Rightarrow>
                     (if \<not> isMatch then
                        (case end_error w of
                           Some err \<Rightarrow> (d, verify_failed err)
                         | None \<Rightarrow>
                            (d, reply 400 [(''message'', JString ''Invalid verification code'')]))
                      else
                        (case write_error w of
                           Some err \<Rightarrow> (d, verify_failed err)
                         | None \<Rightarrow>
                            (let d' = set_verified d e;
                                 token = jwt_sign (user_id user) (email user) secret (now w)
                             in (case end_error w of
                                   Some err \<Rightarrow> (d', verify_failed err)
                                 | None \<Rightarrow>
                                    (d', reply 200
                                       [(''message'',
                                           JString ''Email verified successfully! You're now logged in.''),
                                        (''token'', JToken token),
                                        (''user'', user_info user),
                                        (''redirect'', JString ''/dashboard'')])))))))))))"

text \<open>\<^verbatim>\<open>POST /api/verify-email\<close> of \<^verbatim>\<open>server.js\<close>, lines 146 to 175.\<close>

definition server_verify_email ::
  "hasher \<Rightarrow> world \<Rightarrow> db \<Rightarrow> string option \<Rightarrow> string option \<Rightarrow> db \<times> response"
where
  "server_verify_email H w d email' code' =
     (if falsy email' \<or> falsy code' then
        (d, reply 400 [(''message'', JString ''Missing required fields: email, code'')])
      else
        (let e = the email'; c = the code' in
         (case connect_error w of
            Some err \<Rightarrow> (d, verify_failed err)
          | None \<Rightarrow>
           (case select_error w of
              Some err \<Rightarrow> (d, verify_failed err)
            | None \<Rightarrow>
             (case select_by_email d e of
                [] \<Rightarrow>
                 (case end_error w of
                    Some err \<Rightarrow> (d, verify_failed err)
                  | None \<Rightarrow> (d, reply 404 [(''message'', JString ''User not found'')]))
              | user # _ \<Rightarrow>
                 (case bcrypt_compare H c (verification_code user) of
                    Inl err \<Rightarrow> (d, verify_failed err)
                  | Inr isMatch \<Rightarrow>
                     (if \<not> isMatch then
                        (case end_error w of
                           Some err \<Rightarrow> (d, verify_failed err)
                         | None \<Rightarrow>
                            (d, reply 400 [(''message'', JString ''Invalid verification code'')]))
                      else
                        (case write_error w of
                           Some err \<Rightarrow> (d, verify_failed err)
                         | None \<Rightarrow>
                            (let d' = set_verified d e
                             in (case end_error w of
                                   Some err \<Rightarrow> (d', verify_failed err)
                                 | None \<Rightarrow>
                                    (d', reply 200
                                       [(''message'',
                                           JString ''Email verified successfully!'')])))))))))))"

subsection \<open>Login\<close>

text \<open>The \<^verbatim>\<open>catch\<close> of the login handler.\<close>

definition login_failed :: "string \<Rightarrow> response" where
  "login_failed err =
     reply 500 [(''message'', JString ''Failed to login''), (''error'', JString err)]"

text \<open>
  The values that \<^verbatim>\<open>express.json()\<close> hands to a handler, with the test \<^verbatim>\<open>!x\<close> and
  the operator \<^verbatim>\<open>typeof\<close>.
\<close>

datatype js =
  Undefined
| Null
| Boolean bool
| Number real
| Text string
| Array "js list"
| Object "(string \<times> js) list"

fun falsy_js :: "js \<Rightarrow> bool" where
  "falsy_js Undefined = True"
| "falsy_js Null = True"
| "falsy_js (Boolean b) = (\<not> b)"
| "falsy_js (Number x) = (x = 0)"
| "falsy_js (Text s) = (s = [])"
| "falsy_js (Array xs) = False"
| "falsy_js (Object ms) = False"

fun typeof :: "js \<Rightarrow> string" where
  "typeof Undefined = ''undefined''"
| "typeof Null = ''object''"
| "typeof (Boolean b) = ''boolean''"
| "typeof (Number x) = ''number''"
| "typeof (Text s) = ''string''"
| "typeof (Array xs) = ''object''"
| "typeof (Object ms) = ''object''"

text \<open>
  \<^verbatim>\<open>SELECT * FROM users WHERE email = ?\<close> with the value of the body as parameter.
\<close>

fun select_users :: "world \<Rightarrow> db \<Rightarrow> js \<Rightarrow> user list" where
  "select_users w d (Text s) = select_by_email d s"
| "select_users w d v = filter (coerced w) (users d)"

text \<open>
  \<^verbatim>\<open>bcrypt.compare(password, user.password)\<close>: the column \<^verbatim>\<open>password\<close> always holds a
  string; the value of the body is a string or makes the library reject.
\<close>

fun compare_password :: "hasher \<Rightarrow> js \<Rightarrow> digest \<Rightarrow> string + bool" where
  "compare_password H (Text s) h = bcrypt_compare H s (Some h)"
| "compare_password H v h = Inl (''Illegal arguments: '' @ typeof v @ '', string'')"

text \<open>
  \<^verbatim>\<open>POST /api/login\<close> of \<^verbatim>\<open>part_000\<close>, lines 238 to 282. The handler writes nothing
  to the table.
\<close>

definition login ::
  "string \<Rightarrow> hasher \<Rightarrow> world \<Rightarrow> db \<Rightarrow> js \<Rightarrow> js \<Rightarrow> response"
where
  "login secret H w d email' password' =
     (if falsy_js email' \<or> falsy_js password' then
        reply 400 [(''message'', JString ''Missing required fields: email, password'')]
      else
        (case connect_error w of
           Some err \<Rightarrow> login_failed err
         | None \<Rightarrow>
          (case select_error w of
             Some err \<Rightarrow> login_failed err
           | None \<Rightarrow>
            (case select_users w d email' of
               [] \<Rightarrow>
                (case end_error w of
                   Some err \<Rightarrow> login_failed err
                 | None \<Rightarrow> reply 401 [(''message'', JString ''Invalid email or password'')])
             | user # _ \<Rightarrow>
                (if \<not> is_verified user then
                   (case end_error w of
                      Some err \<Rightarrow> login_failed err
                    | None \<Rightarrow>
                       reply 403
                         [(''message'', JString ''Please verify your email before logging in''),
                          (''redirect'', JString ''/verify'')])
                 else
                   (case compare_password H password' (password user) of
                      Inl err \<Rightarrow> login_failed err
                    | Inr isMatch \<Rightarrow>
                       (if \<not> isMatch then
                          (case end_error w of
                             Some err \<Rightarrow> login_failed err
                           | None \<Rightarrow>
                              reply 401 [(''message'', JString ''Invalid email or password'')])
                        else
                          (let token = jwt_sign (user_id user) (email user) secret (now w)
                           in (case end_error w of
                                 Some err \<Rightarrow> login_failed err
                               | None \<Rightarrow>
                                  reply 200
                                    [(''message'', JString ''Login successful''),
                                     (''token'', JToken token),
                                     (''user'', user_info user),
                                     (''redirect'', JString ''/dashboard'')])))))))))"

text \<open>\<^verbatim>\<open>POST /api/login\<close> of \<^verbatim>\<open>server.js\<close>, lines 178 to 214.\<close>

definition server_login ::
  "string \<Rightarrow> hasher \<Rightarrow> world \<Rightarrow> db \<Rightarrow> js \<Rightarrow> js \<Rightarrow> response"
where
  "server_login secret H w d email' password' =
     (if falsy_js email' \<or> falsy_js password' then
        reply 400 [(''message'', JString ''Missing required fields: email, password'')]
      else
        (case connect_error w of
           Some err \<Rightarrow> login_failed err
         | None \<Rightarrow>
          (case select_error w of
             Some err \<Rightarrow> login_failed err
           | None \<Rightarrow>
            (case select_users w d email' of
               [] \<Rightarrow>
                (case end_error w of
                   Some err \<Rightarrow> login_failed err
                 | None \<Rightarrow> reply 401 [(''message'', JString ''Invalid email or password'')])
             | user # _ \<Rightarrow>
                (if \<not> is_verified user then
                   (case end_error w of
                      Some err \<Rightarrow> login_failed err
                    | None \<Rightarrow>
                       reply 403
                         [(''message'', JString ''Please verify your email before logging in'')])
                 else
                   (case compare_password H password' (password user) of
                      Inl err \<Rightarrow> login_failed err
                    | Inr isMatch \<Rightarrow>
                       (if \<not> isMatch then
                          (case end_error w of
                             Some err \<Rightarrow> login_failed err
                           | None \<Rightarrow>
                              reply 401 [(''message'', JString ''Invalid email or password'')])
                        else
                          (let token = jwt_sign (user_id user) (email user) secret (now w)
                           in (case end_error w of
                                 Some err \<Rightarrow> login_failed err
                               | None \<Rightarrow>
                                  reply 200
                                    [(''message'', JString ''Login successful''),
                                     (''token'', JToken token)])))))))))"

subsection \<open>Sequences of requests\<close>

text \<open>
  The three operations of the account lifecycle, each with the fields of its body.
  A run serves the requests one after the other, each in the world it meets.
\<close>

datatype request =
  Signup "string option" "string option" "string option"
| VerifyEmail "string option" "string option"
| Login js js

fun handle :: "string \<Rightarrow> hasher \<Rightarrow> world \<Rightarrow> db \<Rightarrow> request \<Rightarrow> db \<times> response" where
  "handle secret H w d (Signup n e p) = signup H w d n e p"
| "handle secret H w d (VerifyEmail e c) = verify_email secret H w d e c"
| "handle secret H w d (Login e p) = (d, login secret H w d e p)"

fun server_handle :: "string \<Rightarrow> hasher \<Rightarrow> world \<Rightarrow> db \<Rightarrow> request \<Rightarrow> db \<times> response" where
  "server_handle secret H w d (Signup n e p) = server_signup H w d n e p"
| "server_handle secret H w d (VerifyEmail e c) = server_verify_email H w d e c"
| "server_handle secret H w d (Login e p) = (d, server_login secret H w d e p)"

fun run :: "string \<Rightarrow> hasher \<Rightarrow> db \<Rightarrow> (world \<times> request) list \<Rightarrow> db" where
  "run secret H d [] = d"
| "run secret H d ((w, r) # rs) = run secret H (fst (handle secret H w d r)) rs"

fun server_run :: "string \<Rightarrow> hasher \<Rightarrow> db \<Rightarrow> (world \<times> request) list \<Rightarrow> db" where
  "server_run secret H d [] = d"
| "server_run secret H d ((w, r) # rs) =
     server_run secret H (fst (server_handle secret H w d r)) rs"

definition empty_db :: db where
  "empty_db = \<lparr>users = [], next_id = 1\<rparr>"

text \<open>The two states of an account.\<close>

definition pending :: "user \<Rightarrow> bool" where
  "pending u = (\<not> is_verified u \<and> verification_code u \<noteq> None)"

definition active :: "user \<Rightarrow> bool" where
  "active u = (is_verified u \<and> verification_code u = None)"

text \<open>
  What one request does to the table: nothing, the insertion of a pending row, or
  the update that verifies the rows of an email address.
\<close>

datatype change = Unchanged | Inserted string string digest digest | Verified string

fun apply_change :: "db \<Rightarrow> change \<Rightarrow> db" where
  "apply_change d Unchanged = d"
| "apply_change d (Inserted n e hp hc) = insert_user d n e hp hc"
| "apply_change d (Verified e) = set_verified d e"

text \<open>
  \<open>keeps d d'\<close>: every row of \<open>d\<close> is still in \<open>d'\<close>, at its place and with its
  identity and its password, and is active in \<open>d'\<close> if it was in \<open>d\<close>.
\<close>

definition keeps :: "db \<Rightarrow> db \<Rightarrow> bool" where
  "keeps d d' =
     (length (users d) \<le> length (users d') \<and>
      list_all2
        (\<lambda>u u'. user_id u' = user_id u \<and> name u' = name u \<and> email u' = email u \<and>
                 password u' = password u \<and> (active u \<longrightarrow> active u'))
        (users d) (take (length (users d)) (users d')))"

definition two_states :: "db \<Rightarrow> bool" where
  "two_states d = list_all (\<lambda>u. pending u \<or> active u) (users d)"

subsection \<open>Rate limiting\<close>





text \<open>
  A request as it arrives: its verb, the segments of its path (\<^verbatim>\<open>/api/signup\<close> is
  \<open>[''api'', ''signup'']\<close>, and a trailing slash gives an empty last segment), whether
  \<^verbatim>\<open>express.json\<close> accepts its body, its client address and its time.
\<close>

datatype verb = GET | HEAD | POST | PUT | PATCH | DELETE | OPTIONS

record arrival =
  verb :: verb
  path :: "string list"
  parsed :: bool
  ip :: string
  arrived :: nat

text \<open>
  Express compares the letters of a path without regard to case (the application
  does not enable \<^verbatim>\<open>case sensitive routing\<close>).
\<close>

definition lower :: "char \<Rightarrow> char" where
  "lower c =
     (case map_of (zip ''ABCDEFGHIJKLMNOPQRSTUVWXYZ'' ''abcdefghijklmnopqrstuvwxyz'') c of
        None \<Rightarrow> c
      | Some l \<Rightarrow> l)"

text \<open>
  Where \<^verbatim>\<open>part_000\<close> mounts the limiter (lines 67 to 69 and 285).
  \<^verbatim>\<open>app.use(p, limiter)\<close> runs it on every request whose path begins with the segments
  of \<open>p\<close>; \<^verbatim>\<open>app.post(p, limiter, handler)\<close> runs it on the \<^verbatim>\<open>POST\<close> requests to \<open>p\<close>,
  with or without a trailing slash. \<^verbatim>\<open>server.js\<close> mounts no limiter.
\<close>

definition limited :: "verb \<Rightarrow> string list \<Rightarrow> bool" where
  "limited m p =
     (let q = map (map lower) p in
      take 2 q = [''api'', ''signup''] \<or>
      take 2 q = [''api'', ''login''] \<or>
      take 2 q = [''api'', ''verify-email''] \<or>
      (m = POST \<and> (q = [''api'', ''contact''] \<or> q = [''api'', ''contact'', []])))"

text \<open>
  The middleware mounted before the limiter (lines 54 to 60): \<^verbatim>\<open>helmet\<close> passes every
  request on, \<^verbatim>\<open>cors\<close> answers an \<^verbatim>\<open>OPTIONS\<close> request itself, and \<^verbatim>\<open>express.json\<close>
  hands a body that it does not accept (malformed, or over \<^verbatim>\<open>10kb\<close>) to the error
  handler, past the limiter.
\<close>

definition reaches_limiter :: "arrival \<Rightarrow> bool" where
  "reaches_limiter r = (verb r \<noteq> OPTIONS \<and> parsed r \<and> limited (verb r) (path r))"



text \<open>The times of the requests of client \<open>k\<close> that reached the limiter.\<close>

definition times_of :: "string \<Rightarrow> arrival list \<Rightarrow> nat list" where
  "times_of k rs = map arrived (filter (\<lambda>r. ip r = k \<and> reaches_limiter r) rs)"

subsection \<open>A hasher and a world for the examples\<close>

text \<open>
  A stand-in for bcrypt that prefixes the secret, and a world in which nothing fails
  and \<^verbatim>\<open>Math.random\<close> leads to the code \<open>123456\<close>.
\<close>

definition demo_hasher :: hasher where
  "demo_hasher = \<lparr>digest_of = (\<lambda>s salt. ''$2a$10$'' @ s), digest_matches = (\<lambda>s h. h = ''$2a$10$'' @ s)\<rparr>"

definition calm :: world where
  "calm = \<lparr>connect_error = None, select_error = None, write_error = None, end_error = None,
      mail_error = None, random = 23456, password_salt = 1, code_salt = 2, now = 1000,
      coerced = (\<lambda>u. False)\<rparr>"

text \<open>
  The table of the end-to-end example of the specification after the sign-up of
  \<open>Ama\<close>, and after the verification of her address.
\<close>

definition ama_pending :: db where
  "ama_pending =
     \<lparr>users = [\<lparr>user_id = 1, name = ''Ama'', email = ''ama@x.com'',
                 password = ''$2a$10$password1'', verification_code = Some ''$2a$10$123456'',
                 is_verified = False\<rparr>],
      next_id = 2\<rparr>"

definition ama_active :: db where
  "ama_active =
     \<lparr>users = [\<lparr>user_id = 1, name = ''Ama'', email = ''ama@x.com'',
                 password = ''$2a$10$password1'', verification_code = None,
                 is_verified = True\<rparr>],
      next_id = 2\<rparr>"

section \<open>Properties\<close>

subsection \<open>Evaluation of the examples\<close>

lemma calm_fields [simp]:
  "connect_error calm = None" "select_error calm = None" "write_error calm = None"
  "end_error calm = None" "mail_error calm = None" "random calm = 23456"
  "password_salt calm = 1" "code_salt calm = 2" "now calm = 1000" "coerced calm u = False"
  by (simp_all add: calm_def)

lemma demo_hasher_fields [simp]:
  "digest_of demo_hasher s salt = ''$2a$10$'' @ s"
  "digest_matches demo_hasher s h = (h = ''$2a$10$'' @ s)"
  by (simp_all add: demo_hasher_def)

lemma emailRegex_ama: "emailRegex_test ''ama@x.com''"
  by (simp add: emailRegex_test_def plain_def white_space_def)

lemma verificationCode_calm: "verificationCode calm = ''123456''"
  by (simp add: verificationCode_def digit_def)

lemma signup_try_ama:
  "signup_try extra demo_hasher calm empty_db ''Ama'' ''ama@x.com'' ''password1'' =
     (ama_pending,
      reply 201 ((''message'',
         JString ''User registered successfully! Please check your email for the verification code.'')
         # extra))"
  by (simp add: signup_try_def verificationCode_calm Let_def empty_db_def select_by_email_def
      insert_user_def bcrypt_hash_def ama_pending_def)

lemma signup_ama:
  "signup demo_hasher calm empty_db (Some ''Ama'') (Some ''ama@x.com'') (Some ''password1'') =
     (ama_pending,
      reply 201 [(''message'',
         JString ''User registered successfully! Please check your email for the verification code.''),
         (''redirect'', JString ''/verify'')])"
  by (simp add: signup_def falsy_def emailRegex_ama signup_try_ama)

lemma server_signup_ama:
  "server_signup demo_hasher calm empty_db (Some ''Ama'') (Some ''ama@x.com'') (Some ''password1'') =
     (ama_pending,
      reply 201 [(''message'',
         JString ''User registered successfully! Please check your email for the verification code.'')])"
  by (simp add: server_signup_def falsy_def emailRegex_ama signup_try_ama)

lemma select_ama_pending:
  "select_by_email ama_pending ''ama@x.com'' =
     [\<lparr>user_id = 1, name = ''Ama'', email = ''ama@x.com'', password = ''$2a$10$password1'',
       verification_code = Some ''$2a$10$123456'', is_verified = False\<rparr>]"
  by (simp add: select_by_email_def ama_pending_def)

lemma select_ama_active:
  "select_by_email ama_active ''ama@x.com'' =
     [\<lparr>user_id = 1, name = ''Ama'', email = ''ama@x.com'', password = ''$2a$10$password1'',
       verification_code = None, is_verified = True\<rparr>]"
  by (simp add: select_by_email_def ama_active_def)

lemma set_verified_ama: "set_verified ama_pending ''ama@x.com'' = ama_active"
  by (simp add: set_verified_def ama_pending_def ama_active_def)

lemma verify_email_ama:
  "verify_email secret demo_hasher calm ama_pending (Some ''ama@x.com'') (Some ''123456'') =
     (ama_active,
      reply 200
        [(''message'', JString ''Email verified successfully! You're now logged in.''),
         (''token'', JToken (jwt_sign 1 ''ama@x.com'' secret 1000)),
         (''user'', JObject [(''id'', JNumber 1), (''name'', JString ''Ama''),
                             (''email'', JString ''ama@x.com'')]),
         (''redirect'', JString ''/dashboard'')])"
  by (simp add: verify_email_def falsy_def Let_def select_ama_pending set_verified_ama
      bcrypt_compare_def user_info_def)

lemma server_verify_email_ama:
  "server_verify_email demo_hasher calm ama_pending (Some ''ama@x.com'') (Some ''123456'') =
     (ama_active, reply 200 [(''message'', JString ''Email verified successfully!'')])"
  by (simp add: server_verify_email_def falsy_def Let_def select_ama_pending set_verified_ama
      bcrypt_compare_def)

lemma verify_email_again_ama:
  "verify_email secret demo_hasher calm ama_active (Some ''ama@x.com'') (Some ''123456'') =
     (ama_active, verify_failed ''Illegal arguments: string, object'')"
  by (simp add: verify_email_def falsy_def Let_def select_ama_active bcrypt_compare_def)

lemma server_verify_email_again_ama:
  "server_verify_email demo_hasher calm ama_active (Some ''ama@x.com'') (Some ''123456'') =
     (ama_active, verify_failed ''Illegal arguments: string, object'')"
  by (simp add: server_verify_email_def falsy_def Let_def select_ama_active bcrypt_compare_def)

subsection \<open>What a request does to the table\<close>

lemma signup_try_db:
  "fst (signup_try x H w d n e p) = d \<or>
   fst (signup_try x H w d n e p) =
     insert_user d n e (bcrypt_hash H p (password_salt w))
       (bcrypt_hash H (verificationCode w) (code_salt w))"
  by (simp add: signup_try_def Let_def split: option.split)

lemma signup_db:
  "fst (signup H w d n e p) = d \<or> (\<exists>n' e' hp hc. fst (signup H w d n e p) = insert_user d n' e' hp hc)"
  using signup_try_db [of "[(''redirect'', JString ''/verify'')]" H w d "the n" "the e" "the p"]
  by (auto simp add: signup_def Let_def)

lemma server_signup_db:
  "fst (server_signup H w d n e p) = d \<or> (\<exists>n' e' hp hc. fst (server_signup H w d n e p) = insert_user d n' e' hp hc)"
  using signup_try_db [of "[]" H w d "the n" "the e" "the p"]
  by (auto simp add: server_signup_def Let_def)

lemma verify_email_db:
  "fst (verify_email secret H w d e c) = d \<or> fst (verify_email secret H w d e c) = set_verified d (the e)"
  by (simp add: verify_email_def Let_def split: option.split list.split sum.split)

lemma server_verify_email_db:
  "fst (server_verify_email H w d e c) = d \<or> fst (server_verify_email H w d e c) = set_verified d (the e)"
  by (simp add: server_verify_email_def Let_def split: option.split list.split sum.split)

lemma handle_db: "\<exists>c. fst (handle secret H w d r) = apply_change d c"
proof (cases r)
  case (Signup n e p)
  then show ?thesis using signup_db [of H w d n e p]
    by (metis apply_change.simps(1,2) handle.simps(1))
next
  case (VerifyEmail e c)
  then show ?thesis using verify_email_db [of secret H w d e c]
    by (metis apply_change.simps(1,3) handle.simps(2))
next
  case (Login e p)
  then show ?thesis by (metis apply_change.simps(1) handle.simps(3) fst_conv)
qed

lemma two_states_insert_user: "two_states d \<Longrightarrow> two_states (insert_user d n e hp hc)"
  by (simp add: two_states_def insert_user_def pending_def)

lemma two_states_set_verified: "two_states d \<Longrightarrow> two_states (set_verified d e)"
  by (auto simp add: two_states_def set_verified_def list_all_iff active_def)

lemma keeps_refl: "keeps d d"
  by (simp add: keeps_def list_all2_same)

lemma keeps_trans: "keeps a b \<Longrightarrow> keeps b c \<Longrightarrow> keeps a c"
  unfolding keeps_def list_all2_conv_all_nth by auto

lemma keeps_insert_user: "keeps d (insert_user d n e hp hc)"
  by (simp add: keeps_def insert_user_def list_all2_same)

lemma keeps_set_verified: "keeps d (set_verified d e)"
  by (simp add: keeps_def set_verified_def list_all2_conv_all_nth active_def)

lemma two_states_handle: "two_states d \<Longrightarrow> two_states (fst (handle secret H w d r))"
  using handle_db [of secret H w d r] 
  by (metis apply_change.elims two_states_insert_user two_states_set_verified)

lemma keeps_handle: "keeps d (fst (handle secret H w d r))"
  using handle_db [of secret H w d r] 
  by (metis apply_change.elims keeps_refl keeps_insert_user keeps_set_verified)

lemma two_states_run: "two_states d \<Longrightarrow> two_states (run secret H d rs)"
  by (induction rs arbitrary: d) (auto simp add: two_states_handle)

lemma keeps_run: "keeps d (run secret H d rs)"
proof (induction rs arbitrary: d)
  case Nil
  show ?case by (simp add: keeps_refl)
next
  case (Cons x rs)
  obtain w r where x: "x = (w, r)" by (cases x)
  have "keeps d (fst (handle secret H w d r))" by (rule keeps_handle)
  moreover have "keeps (fst (handle secret H w d r)) (run secret H (fst (handle secret H w d r)) rs)"
    by (rule Cons.IH)
  ultimately show ?case unfolding x by (simp add: keeps_trans)
qed

lemma server_handle_db: "\<exists>c. fst (server_handle secret H w d r) = apply_change d c"
proof (cases r)
  case (Signup n e p)
  then show ?thesis using server_signup_db [of H w d n e p]
    by (metis apply_change.simps(1,2) server_handle.simps(1))
next
  case (VerifyEmail e c)
  then show ?thesis using server_verify_email_db [of H w d e c]
    by (metis apply_change.simps(1,3) server_handle.simps(2))
next
  case (Login e p)
  then show ?thesis by (metis apply_change.simps(1) server_handle.simps(3) fst_conv)
qed

lemma two_states_server_handle:
  "two_states d \<Longrightarrow> two_states (fst (server_handle secret H w d r))"
  using server_handle_db [of secret H w d r]
  by (metis apply_change.elims two_states_insert_user two_states_set_verified)

lemma keeps_server_handle: "keeps d (fst (server_handle secret H w d r))"
  using server_handle_db [of secret H w d r]
  by (metis apply_change.elims keeps_refl keeps_insert_user keeps_set_verified)

lemma two_states_server_run: "two_states d \<Longrightarrow> two_states (server_run secret H d rs)"
  by (induction rs arbitrary: d) (auto simp add: two_states_server_handle)

lemma keeps_server_run: "keeps d (server_run secret H d rs)"
proof (induction rs arbitrary: d)
  case Nil
  show ?case by (simp add: keeps_refl)
next
  case (Cons x rs)
  obtain w r where x: "x = (w, r)" by (cases x)
  have "keeps d (fst (server_handle secret H w d r))" by (rule keeps_server_handle)
  moreover have "keeps (fst (server_handle secret H w d r))
      (server_run secret H (fst (server_handle secret H w d r)) rs)"
    by (rule Cons.IH)
  ultimately show ?case unfolding x by (simp add: keeps_trans)
qed

lemma two_states_empty_db: "two_states empty_db"
  by (simp add: two_states_def empty_db_def)

subsection \<open>The windows of the limiter\<close>

lemma times_of_Nil [simp]: "times_of k [] = []"
  by (simp add: times_of_def)










subsection \<open>Start-up, validation and the queries after a write\<close>

lemma emailRegex_nonempty: "emailRegex_test e \<Longrightarrow> e \<noteq> []"
  by (auto simp add: emailRegex_test_def)

lemma startup_refuses: "falsy (JWT_SECRET env) \<Longrightarrow> startup env = Exited 1"
  by (simp add: startup_def)

lemma startup_secret: "startup env = Listening s \<Longrightarrow> JWT_SECRET env = Some s \<and> s \<noteq> []"
  by (auto simp add: startup_def falsy_def split: if_splits option.splits)

lemma select_set_verified:
  "select_by_email (set_verified d e) e =
     map (\<lambda>u. u\<lparr>is_verified := True, verification_code := None\<rparr>) (select_by_email d e)"
  by (simp add: select_by_email_def set_verified_def filter_map comp_def cong: map_cong)

lemma select_insert_user:
  "select_by_email (insert_user d n e hp hc) e =
     select_by_email d e @
       [\<lparr>user_id = next_id d, name = n, email = e, password = hp,
         verification_code = Some hc, is_verified = False\<rparr>]"
  by (simp add: select_by_email_def insert_user_def)

text \<open>
  The verification with a matching code: what both revisions do to the table, and
  the whole of their responses. The delivery of the confirmation mail has no part
  in either.
\<close>

lemma verify_email_matching:
  assumes "e \<noteq> []" "c \<noteq> []" "store_ok w"
    and "select_by_email d e = u # us"
    and "verification_code u = Some h" "digest_matches H c h"
  shows "verify_email secret H w d (Some e) (Some c) =
           (set_verified d e,
            reply 200
              [(''message'', JString ''Email verified successfully! You're now logged in.''),
               (''token'', JToken (jwt_sign (user_id u) (email u) secret (now w))),
               (''user'', JObject [(''id'', JNumber (user_id u)), (''name'', JString (name u)),
                                   (''email'', JString (email u))]),
               (''redirect'', JString ''/dashboard'')]) \<and>
         server_verify_email H w d (Some e) (Some c) =
           (set_verified d e,
            reply 200 [(''message'', JString ''Email verified successfully!'')]) \<and>
         select_by_email (set_verified d e) e \<noteq> [] \<and>
         list_all active (select_by_email (set_verified d e) e)"
  using assms
  by (simp add: verify_email_def server_verify_email_def falsy_def Let_def store_ok_def
      bcrypt_compare_def user_info_def select_set_verified list_all_iff active_def)

text \<open>The rejection of the \<^verbatim>\<open>INSERT\<close> of a sign-up reaches the \<^verbatim>\<open>catch\<close>.\<close>

lemma signup_insert_rejected:
  assumes "n \<noteq> []" "p \<noteq> []" "emailRegex_test e"
    and "length n \<le> 255" "length e \<le> 255" "8 \<le> length p"
    and "connect_error w = None" "select_error w = None" "select_by_email d e = []"
    and "write_error w = Some err"
  shows "signup H w d (Some n) (Some e) (Some p) = (d, signup_failed err) \<and>
         server_signup H w d (Some n) (Some e) (Some p) = (d, signup_failed err)"
  using assms emailRegex_nonempty [of e]
  by (simp add: signup_def server_signup_def falsy_def Let_def signup_try_def)

lemma verify_email_active:
  assumes "e \<noteq> []" "c \<noteq> []" "connect_error w = None" "select_error w = None"
    and "select_by_email d e = u # us" "verification_code u = None"
  shows "verify_email secret H w d (Some e) (Some c) =
           (d, verify_failed ''Illegal arguments: string, object'')"
    and "server_verify_email H w d (Some e) (Some c) =
           (d, verify_failed ''Illegal arguments: string, object'')"
  using assms
  by (simp_all add: verify_email_def server_verify_email_def falsy_def Let_def bcrypt_compare_def)

lemma signup_length_checks:
  "255 < length n \<or> 255 < length e \<or> length p < 8 \<Longrightarrow>
   fst (signup H w d (Some n) (Some e) (Some p)) = d \<and>
   status (snd (signup H w d (Some n) (Some e) (Some p))) = 400"
  by (auto simp add: signup_def Let_def reply_def)

text \<open>
  Logins with passwords that are strings: no account for the email, or a verified
  account whose hash the password does not match, get one and the same response.
\<close>

lemma login_invalid_credentials_alike:
  assumes "\<not> falsy_js e1" "p1 \<noteq> []" "\<not> falsy_js e2" "p2 \<noteq> []"
    and "store_ok w1" "store_ok w2"
    and "select_users w1 d1 e1 = []"
    and "select_users w2 d2 e2 = u # us" "is_verified u"
    and "\<not> digest_matches H p2 (password u)"
  shows "login secret H w1 d1 e1 (Text p1) =
           reply 401 [(''message'', JString ''Invalid email or password'')] \<and>
         login secret H w2 d2 e2 (Text p2) =
           reply 401 [(''message'', JString ''Invalid email or password'')] \<and>
         server_login secret H w1 d1 e1 (Text p1) =
           reply 401 [(''message'', JString ''Invalid email or password'')] \<and>
         server_login secret H w2 d2 e2 (Text p2) =
           reply 401 [(''message'', JString ''Invalid email or password'')]"
  using assms
  by (simp add: login_def server_login_def store_ok_def bcrypt_compare_def)

lemma select_kofi: "select_by_email ama_active ''kofi@x.com'' = []"
  by (simp add: select_by_email_def ama_active_def)

section \<open>The claims\<close>

text \<open>
  C1. The service must not run with a default or guessable signing secret when
  \<open>JWT_SECRET\<close> is absent. \<^verbatim>\<open>part_000\<close> exits at start-up (\<open>startup_refuses\<close>,
  \<open>startup_secret\<close>). \<^verbatim>\<open>server.js\<close>, started without \<open>JWT_SECRET\<close>, goes on to listen
  with the literal \<open>your_jwt_secret_123\<close>, and its login signs the session token with
  it.
\<close>

theorem server_startup_default_secret:
  "server_startup \<lparr>JWT_SECRET = None, EMAIL_USER = Some ''mama@gmail.com'',
                    EMAIL_PASS = Some ''app-password''\<rparr> =
     Listening ''your_jwt_secret_123'' \<and>
   server_login ''your_jwt_secret_123'' demo_hasher calm ama_active
       (Text ''ama@x.com'') (Text ''password1'') =
     reply 200
       [(''message'', JString ''Login successful''),
        (''token'', JToken \<lparr>userId = 1, jwt_email = ''ama@x.com'', iat = 1000, exp = 4600,
                               signed_with = ''your_jwt_secret_123''\<rparr>)]"
  by (simp add: server_startup_def server_login_def Let_def select_ama_active
      bcrypt_compare_def jwt_sign_def)

text \<open>
  C2, as stated: every sign-up with an email that already has an account ends in
  Conflict, also when the duplicate shows only as a uniqueness violation of the
  insert that follows the controller's own check. Against it: the existence check of
  a valid sign-up finds no row, and the \<^verbatim>\<open>INSERT\<close> rejects with the duplicate-entry
  error of the store (another connection has inserted the address in between); the
  \<^verbatim>\<open>catch\<close> answers 500 \<open>Failed to register user\<close>, the response of every other failure of
  the store, and not the 400 \<open>Email already registered\<close> of the check.
\<close>

theorem signup_duplicate_at_insert_counterexample:
  "signup demo_hasher
      (calm\<lparr>write_error := Some ''ER_DUP_ENTRY: Duplicate entry for key users.email''\<rparr>)
      empty_db (Some ''Ama'') (Some ''ama@x.com'') (Some ''password1'') =
     (empty_db,
      reply 500 [(''message'', JString ''Failed to register user''),
                 (''error'', JString ''ER_DUP_ENTRY: Duplicate entry for key users.email'')])"
  by (simp add: signup_def falsy_def emailRegex_ama signup_try_def Let_def signup_failed_def
      select_by_email_def empty_db_def)

text \<open>
  C2, amended. A sign-up that passes validation, while the connection, the
  \<^verbatim>\<open>SELECT\<close> and \<^verbatim>\<open>db.end\<close> succeed, and whose email the existence check of the
  controller finds in the table, is answered 400 \<open>Email already registered\<close> and
  leaves the table as it was, under both revisions.
\<close>

theorem signup_conflict:
  assumes "n \<noteq> []" "p \<noteq> []" "emailRegex_test e"
    and "length n \<le> 255" "length e \<le> 255" "8 \<le> length p"
    and "connect_error w = None" "select_error w = None" "end_error w = None"
    and "select_by_email d e \<noteq> []"
  shows "signup H w d (Some n) (Some e) (Some p) =
           (d, reply 400 [(''message'', JString ''Email already registered'')]) \<and>
         server_signup H w d (Some n) (Some e) (Some p) =
           (d, reply 400 [(''message'', JString ''Email already registered'')])"
  using assms emailRegex_nonempty [of e]
  by (simp add: signup_def server_signup_def falsy_def Let_def signup_try_def)

theorem signup_conflict_witness:
  "select_by_email ama_pending ''ama@x.com'' \<noteq> [] \<and>
   emailRegex_test ''ama@x.com'' \<and>
   signup demo_hasher calm ama_pending (Some ''Ama'') (Some ''ama@x.com'') (Some ''password1'') =
     (ama_pending, reply 400 [(''message'', JString ''Email already registered'')]) \<and>
   server_signup demo_hasher calm ama_pending (Some ''Ama'') (Some ''ama@x.com'')
       (Some ''password1'') =
     (ama_pending, reply 400 [(''message'', JString ''Email already registered'')])"
  using signup_conflict [of "''Ama''" "''password1''" "''ama@x.com''" calm ama_pending demo_hasher]
  by (simp add: emailRegex_ama select_ama_pending)

text \<open>
  C3. In every state that a sequence of Signup, VerifyEmail and Login requests reaches
  from the empty table, under either revision, every account is either pending (a
  code hash, not verified) or active (no code hash, verified), never both, and
  \<open>is_verified\<close> implies that the code hash is absent. Whatever requests follow,
  every account keeps its place and identity and an active account stays active: a
  pending account can only become active.
\<close>

theorem account_pending_or_active:
  "list_all (\<lambda>u. (pending u \<or> active u) \<and> \<not> (pending u \<and> active u) \<and>
                  (is_verified u \<longrightarrow> verification_code u = None))
     (users (run secret H empty_db rs)) \<and>
   keeps (run secret H empty_db rs) (run secret H (run secret H empty_db rs) rs') \<and>
   list_all (\<lambda>u. (pending u \<or> active u) \<and> \<not> (pending u \<and> active u) \<and>
                  (is_verified u \<longrightarrow> verification_code u = None))
     (users (server_run secret H empty_db rs)) \<and>
   keeps (server_run secret H empty_db rs)
     (server_run secret H (server_run secret H empty_db rs) rs')"
proof -
  have two: "two_states d \<Longrightarrow>
    list_all (\<lambda>u. (pending u \<or> active u) \<and> \<not> (pending u \<and> active u) \<and>
                  (is_verified u \<longrightarrow> verification_code u = None)) (users d)" for d
    by (auto simp add: two_states_def list_all_iff pending_def active_def)
  have "two_states (run secret H empty_db rs)"
    by (rule two_states_run [OF two_states_empty_db])
  moreover have "two_states (server_run secret H empty_db rs)"
    by (rule two_states_server_run [OF two_states_empty_db])
  ultimately show ?thesis
    by (intro conjI two keeps_run keeps_server_run)
qed

theorem account_pending_or_active_witness:
  "run ''k'' demo_hasher empty_db
      [(calm, Signup (Some ''Ama'') (Some ''ama@x.com'') (Some ''password1''))] = ama_pending \<and>
   list_all pending (users ama_pending) \<and>
   run ''k'' demo_hasher ama_pending
      [(calm, VerifyEmail (Some ''ama@x.com'') (Some ''123456'')),
       (calm, Login (Text ''ama@x.com'') (Text ''password1''))] = ama_active \<and>
   list_all active (users ama_active) \<and>
   keeps ama_pending ama_active"
proof -
  let ?rs = "[(calm, Signup (Some ''Ama'') (Some ''ama@x.com'') (Some ''password1''))]"
  let ?rs' = "[(calm, VerifyEmail (Some ''ama@x.com'') (Some ''123456'')),
       (calm, Login (Text ''ama@x.com'') (Text ''password1''))]"
  have r1: "run ''k'' demo_hasher empty_db ?rs = ama_pending"
    by (simp add: signup_ama)
  have r2: "run ''k'' demo_hasher ama_pending ?rs' = ama_active"
    by (simp add: verify_email_ama)
  have "list_all pending (users ama_pending)" "list_all active (users ama_active)"
    by (simp_all add: ama_pending_def ama_active_def pending_def active_def)
  moreover have "keeps ama_pending ama_active"
    using account_pending_or_active [of "''k''" demo_hasher ?rs ?rs'] by (simp only: r1 r2)
  ultimately show ?thesis by (simp only: r1 r2)
qed

text \<open>
  C4. A verification with both fields present, while the store works, of an account
  whose code hash the code matches must make the account active and answer with a
  session token and the account's id, name and email, never with the password hash
  or the code. \<^verbatim>\<open>part_000\<close> does so, and both revisions make the account active
  (\<open>verify_email_matching\<close>). \<^verbatim>\<open>server.js\<close> verifies the pending account of Ama with
  the matching code and answers with the member \<open>message\<close> only: no token.
\<close>

theorem server_verify_email_no_token:
  "list_all pending (select_by_email ama_pending ''ama@x.com'') \<and>
   bcrypt_compare demo_hasher ''123456'' (Some ''$2a$10$123456'') = Inr True \<and>
   server_verify_email demo_hasher calm ama_pending (Some ''ama@x.com'') (Some ''123456'') =
     (ama_active, reply 200 [(''message'', JString ''Email verified successfully!'')])"
  by (simp add: server_verify_email_ama select_ama_pending pending_def bcrypt_compare_def)

text \<open>
  C5. A second verification of a verified account with the original code should end
  in \<open>Invalid verification code\<close> (400). After the sign-up and the verification of
  Ama the column \<^verbatim>\<open>verification_code\<close> is \<^verbatim>\<open>NULL\<close>, \<^verbatim>\<open>bcrypt.compare\<close> rejects the
  \<^verbatim>\<open>null\<close>, and the \<^verbatim>\<open>catch\<close> of either revision answers 500 \<open>Failed to verify email\<close>
  (in general: \<open>verify_email_active\<close>).
\<close>

theorem verify_email_twice:
  "handle ''k'' demo_hasher calm
      (run ''k'' demo_hasher empty_db
         [(calm, Signup (Some ''Ama'') (Some ''ama@x.com'') (Some ''password1'')),
          (calm, VerifyEmail (Some ''ama@x.com'') (Some ''123456''))])
      (VerifyEmail (Some ''ama@x.com'') (Some ''123456'')) =
     (ama_active,
      reply 500 [(''message'', JString ''Failed to verify email''),
                 (''error'', JString ''Illegal arguments: string, object'')]) \<and>
   server_handle ''k'' demo_hasher calm
      (server_run ''k'' demo_hasher empty_db
         [(calm, Signup (Some ''Ama'') (Some ''ama@x.com'') (Some ''password1'')),
          (calm, VerifyEmail (Some ''ama@x.com'') (Some ''123456''))])
      (VerifyEmail (Some ''ama@x.com'') (Some ''123456'')) =
     (ama_active,
      reply 500 [(''message'', JString ''Failed to verify email''),
                 (''error'', JString ''Illegal arguments: string, object'')])"
  by (simp add: signup_ama server_signup_ama verify_email_ama server_verify_email_ama
      verify_email_again_ama server_verify_email_again_ama verify_failed_def)

text \<open>
  C6. A login with an email that matches no account and a login with the email of
  a verified account and a wrong password must get the same response, so that the
  response does not tell whether the account exists. For passwords that are strings
  they do (\<open>login_invalid_credentials_alike\<close>). With the number \<open>12345678\<close> as password
  the first is answered 401 before any comparison; in the second
  \<^verbatim>\<open>bcrypt.compare\<close> rejects the number and the \<^verbatim>\<open>catch\<close> answers 500
  \<open>Failed to login\<close>, under both revisions.
\<close>

theorem login_number_password_tells:
  "select_users calm ama_active (Text ''kofi@x.com'') = [] \<and>
   list_all is_verified (select_users calm ama_active (Text ''ama@x.com'')) \<and>
   login ''k'' demo_hasher calm ama_active (Text ''kofi@x.com'') (Number 12345678) =
     reply 401 [(''message'', JString ''Invalid email or password'')] \<and>
   login ''k'' demo_hasher calm ama_active (Text ''ama@x.com'') (Number 12345678) =
     reply 500 [(''message'', JString ''Failed to login''),
                (''error'', JString ''Illegal arguments: number, string'')] \<and>
   server_login ''k'' demo_hasher calm ama_active (Text ''kofi@x.com'') (Number 12345678) =
     reply 401 [(''message'', JString ''Invalid email or password'')] \<and>
   server_login ''k'' demo_hasher calm ama_active (Text ''ama@x.com'') (Number 12345678) =
     reply 500 [(''message'', JString ''Failed to login''),
                (''error'', JString ''Illegal arguments: number, string'')]"
  by (simp add: login_def server_login_def select_ama_active select_kofi login_failed_def)

text \<open>
  C7. A login with both fields present (any values that pass the test of presence), while the store works,
  against an account that is not verified is answered 403
  \<open>Please verify your email before logging in\<close>, whatever the password and whatever
  bcrypt would say of it: the response does not mention them.
\<close>

theorem login_not_verified:
  assumes "\<not> falsy_js e" "\<not> falsy_js p" "store_ok w"
    and "select_users w d e = u # us" "\<not> is_verified u"
  shows "login secret H w d e p =
           reply 403 [(''message'', JString ''Please verify your email before logging in''),
                      (''redirect'', JString ''/verify'')] \<and>
         server_login secret H w d e p =
           reply 403 [(''message'', JString ''Please verify your email before logging in'')]"
  using assms
  by (simp add: login_def server_login_def store_ok_def)

theorem login_not_verified_witness:
  "store_ok calm \<and>
   select_users calm ama_pending (Text ''ama@x.com'') = users ama_pending \<and>
   list_all (\<lambda>u. \<not> is_verified u \<and> digest_matches demo_hasher ''password1'' (password u))
     (users ama_pending) \<and>
   login ''k'' demo_hasher calm ama_pending (Text ''ama@x.com'') (Text ''password1'') =
     reply 403 [(''message'', JString ''Please verify your email before logging in''),
                (''redirect'', JString ''/verify'')] \<and>
   server_login ''k'' demo_hasher calm ama_pending (Text ''ama@x.com'') (Text ''password1'') =
     reply 403 [(''message'', JString ''Please verify your email before logging in'')] \<and>
   login ''k'' demo_hasher calm ama_pending (Text ''ama@x.com'') (Number 12345678) =
     reply 403 [(''message'', JString ''Please verify your email before logging in''),
                (''redirect'', JString ''/verify'')]"
proof -
  have ok: "store_ok calm"
    by (simp add: store_ok_def)
  have us: "users ama_pending =
      [\<lparr>user_id = 1, name = ''Ama'', email = ''ama@x.com'', password = ''$2a$10$password1'',
        verification_code = Some ''$2a$10$123456'', is_verified = False\<rparr>]"
    by (simp add: ama_pending_def)
  have sel: "select_users calm ama_pending (Text ''ama@x.com'') =
      [\<lparr>user_id = 1, name = ''Ama'', email = ''ama@x.com'', password = ''$2a$10$password1'',
        verification_code = Some ''$2a$10$123456'', is_verified = False\<rparr>]"
    by (simp add: select_ama_pending)
  have str: "login ''k'' demo_hasher calm ama_pending (Text ''ama@x.com'') (Text ''password1'') =
       reply 403 [(''message'', JString ''Please verify your email before logging in''),
                  (''redirect'', JString ''/verify'')] \<and>
     server_login ''k'' demo_hasher calm ama_pending (Text ''ama@x.com'') (Text ''password1'') =
       reply 403 [(''message'', JString ''Please verify your email before logging in'')]"
    using login_not_verified [where p = "Text ''password1''" and secret = "''k''"
        and H = demo_hasher, OF _ _ ok sel]
    by simp
  have num: "login ''k'' demo_hasher calm ama_pending (Text ''ama@x.com'') (Number 12345678) =
       reply 403 [(''message'', JString ''Please verify your email before logging in''),
                  (''redirect'', JString ''/verify'')]"
    using login_not_verified [where p = "Number 12345678" and secret = "''k''"
        and H = demo_hasher, OF _ _ ok sel]
    by simp
  have sel': "select_users calm ama_pending (Text ''ama@x.com'') = users ama_pending"
    by (simp only: sel us)
  have all: "list_all (\<lambda>u. \<not> is_verified u \<and>
      digest_matches demo_hasher ''password1'' (password u)) (users ama_pending)"
    by (simp add: us)
  show ?thesis
    using ok sel' all str num by blast
qed

text \<open>
  C8. A sign-up that passes validation, for an email without an account, while the
  store works and the delivery of the welcome mail fails: the pending row is in the
  table afterwards and the response is 500 with the message
  \<open>User registered, but failed to send verification email\<close>, which is not the
  response of the \<^verbatim>\<open>catch\<close>, under both revisions.
\<close>

theorem signup_mail_failure:
  assumes "n \<noteq> []" "p \<noteq> []" "emailRegex_test e"
    and "length n \<le> 255" "length e \<le> 255" "8 \<le> length p"
    and "store_ok w" "select_by_email d e = []" "mail_error w = Some err"
  shows "signup H w d (Some n) (Some e) (Some p) =
           (insert_user d n e (bcrypt_hash H p (password_salt w))
              (bcrypt_hash H (verificationCode w) (code_salt w)),
            reply 500 [(''message'',
              JString ''User registered, but failed to send verification email'')]) \<and>
         server_signup H w d (Some n) (Some e) (Some p) = signup H w d (Some n) (Some e) (Some p) \<and>
         select_by_email (fst (signup H w d (Some n) (Some e) (Some p))) e =
           [\<lparr>user_id = next_id d, name = n, email = e,
             password = bcrypt_hash H p (password_salt w),
             verification_code = Some (bcrypt_hash H (verificationCode w) (code_salt w)),
             is_verified = False\<rparr>] \<and>
         snd (signup H w d (Some n) (Some e) (Some p)) \<noteq> signup_failed x"
  using assms emailRegex_nonempty [of e]
  by (simp add: signup_def server_signup_def falsy_def Let_def signup_try_def store_ok_def
      select_insert_user signup_failed_def reply_def)

theorem signup_mail_failure_witness:
  "store_ok (calm\<lparr>mail_error := Some ''ETIMEDOUT''\<rparr>) \<and>
   emailRegex_test ''ama@x.com'' \<and>
   select_by_email empty_db ''ama@x.com'' = [] \<and>
   signup demo_hasher (calm\<lparr>mail_error := Some ''ETIMEDOUT''\<rparr>) empty_db
       (Some ''Ama'') (Some ''ama@x.com'') (Some ''password1'') =
     (ama_pending,
      reply 500 [(''message'',
        JString ''User registered, but failed to send verification email'')]) \<and>
   list_all pending (select_by_email ama_pending ''ama@x.com'')"
proof -
  have ok: "store_ok (calm\<lparr>mail_error := Some ''ETIMEDOUT''\<rparr>)"
    by (simp add: store_ok_def)
  have sel: "select_by_email empty_db ''ama@x.com'' = []"
    by (simp add: select_by_email_def empty_db_def)
  have code: "verificationCode (calm\<lparr>mail_error := Some ''ETIMEDOUT''\<rparr>) = ''123456''"
    by (simp add: verificationCode_def digit_def)
  have ins: "insert_user empty_db ''Ama'' ''ama@x.com'' ''$2a$10$password1'' ''$2a$10$123456'' =
      ama_pending"
    by (simp add: insert_user_def empty_db_def ama_pending_def)
  show ?thesis
    using signup_mail_failure [of "''Ama''" "''password1''" "''ama@x.com''"
        "calm\<lparr>mail_error := Some ''ETIMEDOUT''\<rparr>" empty_db "''ETIMEDOUT''" demo_hasher "[]"]
    by (simp add: ok sel emailRegex_ama code bcrypt_hash_def ins select_ama_pending pending_def)
qed

text \<open>
  C9. A sign-up whose name or email has more than 255 characters, or whose password
  has fewer than 8, must fail with 400 and create no account. \<^verbatim>\<open>part_000\<close> does so
  (\<open>signup_length_checks\<close>). \<^verbatim>\<open>server.js\<close> has no length check: it registers Ama with
  the password \<open>abc\<close>.
\<close>

theorem server_signup_short_password:
  "length ''abc'' < (8::nat) \<and>
   server_signup demo_hasher calm empty_db (Some ''Ama'') (Some ''ama@x.com'') (Some ''abc'') =
     (\<lparr>users = [\<lparr>user_id = 1, name = ''Ama'', email = ''ama@x.com'',
                  password = ''$2a$10$abc'', verification_code = Some ''$2a$10$123456'',
                  is_verified = False\<rparr>],
       next_id = 2\<rparr>,
      reply 201 [(''message'',
        JString ''User registered successfully! Please check your email for the verification code.'')])"
  by (simp add: server_signup_def falsy_def emailRegex_ama signup_try_def verificationCode_calm
      Let_def empty_db_def select_by_email_def insert_user_def bcrypt_hash_def)



end
